theory Spec2Isabelle
  imports Main
begin

section \<open>Payloads of the hosting platform\<close>

text \<open>
  The program reads only a few fields of the JSON bodies the platform returns. Each payload
  is a record of exactly the fields \<^verbatim>\<open>index.ts\<close> touches, with the platform's
  nullable fields as options: \<^verbatim>\<open>merged_at\<close> and \<^verbatim>\<open>user\<close> of a pull request, and the
  optional \<^verbatim>\<open>files\<close> of a commit detail. Strings are byte strings (UTF-8), as the report
  file holds them.
\<close>

record linked =
  html_url :: string

record issue = linked +
  title :: string

record account =
  login :: string

record pull = issue +
  merged_at :: "string option"
  user :: "account option"

record identified = linked +
  sha :: string

text \<open>The nested \<^verbatim>\<open>commit\<close> object of a commit listing; its field is \<^verbatim>\<open>message\<close>.\<close>

record git_commit =
  commit_message :: string

record listed_commit = identified +
  commit :: git_commit

text \<open>The projection \<^verbatim>\<open>{ sha, message, html_url }\<close> built by \<^verbatim>\<open>getTodaysCommits\<close>.\<close>

record commit_summary = identified +
  message :: string

record diff_entry =
  filename :: string

record commit_detail =
  files :: "diff_entry list option"

record labelled =
  label :: string

text \<open>An entry of \<^verbatim>\<open>config.repos\<close>.\<close>

record repoConfig = labelled +
  name :: string

text \<open>An element of \<^verbatim>\<open>allData\<close>: \<^verbatim>\<open>{ repo, label, issues, prs, commits }\<close>.\<close>

record repoData = labelled +
  repo :: string
  issues :: "issue list"
  prs :: "pull list"
  commits :: "commit_summary list"

text \<open>\<^verbatim>\<open>config.json\<close>, and the two values read from \<^verbatim>\<open>process.env\<close>.\<close>

record config =
  repos :: "repoConfig list"

record env =
  GITHUB_TOKEN :: "string option"
  GITHUB_USER :: "string option"

section \<open>Errors, clock, console, network and disk\<close>

text \<open>
  A thrown value: a failed request (axios rejects on a network error, a non-2xx status or
  a malformed body), a \<^verbatim>\<open>TypeError\<close> of the language, or a failed system call.
\<close>

datatype error = AxiosError string | TypeError string | SystemError string

fun error_name :: "error \<Rightarrow> string" where
  "error_name (AxiosError m) = ''AxiosError''"
| "error_name (TypeError m) = ''TypeError''"
| "error_name (SystemError m) = ''Error''"

fun error_message :: "error \<Rightarrow> string" where
  "error_message (AxiosError m) = m"
| "error_message (TypeError m) = m"
| "error_message (SystemError m) = m"

text \<open>
  \<^verbatim>\<open>`${error}`\<close>, that is \<^verbatim>\<open>Error.prototype.toString\<close>: the message alone when the
  name is empty, the name alone when the message is empty, and otherwise the name, a colon,
  a space and the message.
\<close>

definition error_toString :: "error \<Rightarrow> string" where
  "error_toString e =
     (if error_name e = [] then error_message e
      else if error_message e = [] then error_name e
      else error_name e @ '': '' @ error_message e)"

text \<open>The value of \<^verbatim>\<open>new Date()\<close>, by its UTC fields.\<close>

record utc_time =
  year :: int
  month :: nat
  day :: nat
  hours :: nat
  minutes :: nat
  seconds :: nat
  milliseconds :: nat

datatype console_line = is_Log: Log string | Error string

record header_set =
  Authorization :: string
  Accept :: string

text \<open>
  What the program changes: the console, the requests it has issued, the writes to the
  disk in order (each replaces the whole file at its path), and \<^verbatim>\<open>tick\<close>, the number
  of interactions with the outside so far. The outside may answer differently at every tick.
\<close>

record state =
  tick :: nat
  console :: "console_line list"
  requests :: "(string \<times> header_set) list"
  written :: "(string \<times> string) list"

text \<open>
  The outside world of one run: the clock, the locale's date format, the answer of each of
  the four endpoints to a URL requested at a tick, whether writing a file fails, and
  \<^verbatim>\<open>report_path\<close>, the value of \<^verbatim>\<open>join(__dirname, '../report.md')\<close>.
\<close>

record world =
  time_at :: "nat \<Rightarrow> utc_time"
  toLocaleDateString :: "utc_time \<Rightarrow> string"
  issues_endpoint :: "nat \<Rightarrow> string \<Rightarrow> error + issue list"
  pulls_endpoint :: "nat \<Rightarrow> string \<Rightarrow> error + pull list"
  commits_endpoint :: "nat \<Rightarrow> string \<Rightarrow> error + listed_commit list"
  commit_endpoint :: "nat \<Rightarrow> string \<Rightarrow> error + commit_detail"
  writeFile_failure :: "nat \<Rightarrow> string \<Rightarrow> string \<Rightarrow> error option"
  report_path :: string

definition init_state :: state where
  "init_state = \<lparr>tick = 0, console = [], requests = [], written = []\<rparr>"

definition console_log :: "string \<Rightarrow> state \<Rightarrow> state" where
  "console_log line s = s\<lparr>console := console s @ [Log line]\<rparr>"

definition console_error :: "string \<Rightarrow> state \<Rightarrow> state" where
  "console_error line s = s\<lparr>console := console s @ [Error line]\<rparr>"

definition new_Date :: "world \<Rightarrow> state \<Rightarrow> utc_time \<times> state" where
  "new_Date w s = (time_at w (tick s), s\<lparr>tick := Suc (tick s)\<rparr>)"

text \<open>\<^verbatim>\<open>await axios.get(url, { headers })\<close> against one endpoint.\<close>

definition axios_get ::
  "(nat \<Rightarrow> string \<Rightarrow> error + 'a) \<Rightarrow> string \<Rightarrow> header_set \<Rightarrow> state \<Rightarrow> (error + 'a) \<times> state" where
  "axios_get endpoint url hdrs s =
     (endpoint (tick s) url,
      s\<lparr>tick := Suc (tick s), requests := requests s @ [(url, hdrs)]\<rparr>)"

text \<open>\<^verbatim>\<open>await fs.writeFile(filePath, content)\<close>: rejects, or replaces the file.\<close>

definition fs_writeFile :: "world \<Rightarrow> string \<Rightarrow> string \<Rightarrow> state \<Rightarrow> (error + unit) \<times> state" where
  "fs_writeFile w path content s =
     (case writeFile_failure w (tick s) path content of
        Some e \<Rightarrow> (Inl e, s\<lparr>tick := Suc (tick s)\<rparr>)
      | None \<Rightarrow> (Inr (), s\<lparr>tick := Suc (tick s), written := written s @ [(path, content)]\<rparr>))"

section \<open>Template text\<close>

definition cross_mark :: string where
  "cross_mark = [CHR 0xE2, CHR 0x9D, CHR 0x8C]"

definition check_mark :: string where
  "check_mark = [CHR 0xE2, CHR 0x9C, CHR 0x85]"

definition construction_sign :: string where
  "construction_sign = [CHR 0xF0, CHR 0x9F, CHR 0x8F, CHR 0x97, CHR 0xEF, CHR 0xB8, CHR 0x8F]"

definition hammer_and_wrench :: string where
  "hammer_and_wrench = [CHR 0xF0, CHR 0x9F, CHR 0x9B, CHR 0xA0, CHR 0xEF, CHR 0xB8, CHR 0x8F]"

definition arrows :: string where
  "arrows = [CHR 0xF0, CHR 0x9F, CHR 0x94, CHR 0x84]"

definition floppy_disk :: string where
  "floppy_disk = [CHR 0xF0, CHR 0x9F, CHR 0x92, CHR 0xBE]"

definition i_acute :: string where
  "i_acute = [CHR 0xC3, CHR 0xAD]"

definition backtick :: string where
  "backtick = [CHR 0x60]"

section \<open>The language's coercions\<close>

text \<open>
  A value of type \<^verbatim>\<open>string | undefined\<close> (or \<^verbatim>\<open>string | null\<close>) is falsy when it is
  missing and when it is the empty string.
\<close>

definition truthy :: "string option \<Rightarrow> bool" where
  "truthy v = (case v of None \<Rightarrow> False | Some str \<Rightarrow> str \<noteq> [])"

text \<open>\<^verbatim>\<open>`${v}`\<close> for such a value.\<close>

definition interpolate :: "string option \<Rightarrow> string" where
  "interpolate v = (case v of None \<Rightarrow> ''undefined'' | Some str \<Rightarrow> str)"

text \<open>\<^verbatim>\<open>str.split(sep)[0]\<close>, for a one-character separator: what stands before its first occurrence.\<close>

definition split_head :: "char \<Rightarrow> string \<Rightarrow> string" where
  "split_head sep str = takeWhile (\<lambda>c. c \<noteq> sep) str"

text \<open>
  \<^verbatim>\<open>Array.prototype.filter\<close> with a callback that may throw: the first throw ends the call.
\<close>

fun filter_throwing :: "('a \<Rightarrow> error + bool) \<Rightarrow> 'a list \<Rightarrow> error + 'a list" where
  "filter_throwing p [] = Inr []"
| "filter_throwing p (x # xs) =
     (case p x of
        Inl e \<Rightarrow> Inl e
      | Inr keep \<Rightarrow>
          (case filter_throwing p xs of
             Inl e \<Rightarrow> Inl e
           | Inr ys \<Rightarrow> Inr (if keep then x # ys else ys)))"

subsection \<open>\<^verbatim>\<open>Date.prototype.toISOString\<close>\<close>

definition digit_char :: "nat \<Rightarrow> char" where
  "digit_char d = ''0123456789'' ! (d mod 10)"

text \<open>The last \<open>k\<close> decimal digits of \<open>n\<close>, padded with zeros.\<close>

fun pad :: "nat \<Rightarrow> nat \<Rightarrow> string" where
  "pad 0 n = []"
| "pad (Suc k) n = pad k (n div 10) @ [digit_char n]"

text \<open>
  \<^verbatim>\<open>YYYY-MM-DD\<close>, the year with a sign and six digits outside \<open>0 .. 9999\<close>.
\<close>

definition iso_date :: "utc_time \<Rightarrow> string" where
  "iso_date t =
     (if 0 \<le> year t \<and> year t \<le> 9999 then pad 4 (nat (year t))
      else (if year t < 0 then ''-'' else ''+'') @ pad 6 (nat \<bar>year t\<bar>))
     @ ''-'' @ pad 2 (month t) @ ''-'' @ pad 2 (day t)"

definition iso_clock :: "utc_time \<Rightarrow> string" where
  "iso_clock t =
     pad 2 (hours t) @ '':'' @ pad 2 (minutes t) @ '':'' @ pad 2 (seconds t)
     @ ''.'' @ pad 3 (milliseconds t)"

definition toISOString :: "utc_time \<Rightarrow> string" where
  "toISOString t = iso_date t @ ''T'' @ iso_clock t @ ''Z''"

text \<open>\<^verbatim>\<open>toISOString().split('T')[0]\<close> of a clock reading.\<close>

definition today_of :: "utc_time \<Rightarrow> string" where
  "today_of now = split_head (CHR ''T'') (toISOString now)"

section \<open>The request headers\<close>

definition headers :: "env \<Rightarrow> header_set" where
  "headers e =
     \<lparr>Authorization = ''token '' @ interpolate (GITHUB_TOKEN e),
      Accept = ''application/vnd.github.v3+json''\<rparr>"

section \<open>The Collectors\<close>

text \<open>
  The three request targets, each the template string of its Collector. Record fields are
  constants, so a parameter that the source calls \<^verbatim>\<open>repo\<close> or \<^verbatim>\<open>sha\<close> is written
  with a prime.
\<close>

definition issues_url :: "env \<Rightarrow> string \<Rightarrow> string \<Rightarrow> string \<Rightarrow> string" where
  "issues_url e owner repo' today =
     ''https://api.github.com/repos/'' @ owner @ ''/'' @ repo'
     @ ''/issues?state=closed&creator='' @ interpolate (GITHUB_USER e)
     @ ''&since='' @ today @ ''T00:00:00Z''"

definition pulls_url :: "string \<Rightarrow> string \<Rightarrow> string \<Rightarrow> string" where
  "pulls_url owner repo' today =
     ''https://api.github.com/repos/'' @ owner @ ''/'' @ repo'
     @ ''/pulls?state=closed&since='' @ today @ ''T00:00:00Z''"

definition commits_url :: "env \<Rightarrow> string \<Rightarrow> string \<Rightarrow> string \<Rightarrow> string" where
  "commits_url e owner repo' today =
     ''https://api.github.com/repos/'' @ owner @ ''/'' @ repo'
     @ ''/commits?author='' @ interpolate (GITHUB_USER e)
     @ ''&since='' @ today @ ''T00:00:00Z''"

definition getClosedIssues ::
  "world \<Rightarrow> env \<Rightarrow> string \<Rightarrow> string \<Rightarrow> state \<Rightarrow> (error + issue list) \<times> state" where
  "getClosedIssues w e owner repo' s =
     (let (now, s1) = new_Date w s;
          today = today_of now;
          url = issues_url e owner repo' today
      in axios_get (issues_endpoint w) url (headers e) s1)"

text \<open>
  The callback of the filter, \<^verbatim>\<open>pr.merged_at && pr.user.login === GITHUB_USER\<close>: reading
  \<^verbatim>\<open>login\<close> of a \<^verbatim>\<open>user\<close> that is \<^verbatim>\<open>null\<close> throws, and \<^verbatim>\<open>&&\<close> reads it only
  when \<^verbatim>\<open>merged_at\<close> is truthy.
\<close>

definition null_login :: error where
  "null_login =
     TypeError (''Cannot read properties of null (reading '' @ [CHR 0x27] @ ''login''
                @ [CHR 0x27] @ '')'')"

definition merged_by_user :: "env \<Rightarrow> pull \<Rightarrow> error + bool" where
  "merged_by_user e pr =
     (if truthy (merged_at pr) then
        (case user pr of
           None \<Rightarrow> Inl null_login
         | Some u \<Rightarrow> Inr (Some (login u) = GITHUB_USER e))
      else Inr False)"

definition getMergedPRs ::
  "world \<Rightarrow> env \<Rightarrow> string \<Rightarrow> string \<Rightarrow> state \<Rightarrow> (error + pull list) \<times> state" where
  "getMergedPRs w e owner repo' s =
     (let (now, s1) = new_Date w s;
          today = today_of now;
          url = pulls_url owner repo' today
      in case axios_get (pulls_endpoint w) url (headers e) s1 of
           (Inl err, s2) \<Rightarrow> (Inl err, s2)
         | (Inr data, s2) \<Rightarrow> (filter_throwing (merged_by_user e) data, s2))"

definition getTodaysCommits ::
  "world \<Rightarrow> env \<Rightarrow> string \<Rightarrow> string \<Rightarrow> state \<Rightarrow> (error + commit_summary list) \<times> state" where
  "getTodaysCommits w e owner repo' s =
     (let (now, s1) = new_Date w s;
          today = today_of now;
          url = commits_url e owner repo' today
      in case axios_get (commits_endpoint w) url (headers e) s1 of
           (Inl err, s2) \<Rightarrow> (Inl err, s2)
         | (Inr data, s2) \<Rightarrow>
             (Inr (map (\<lambda>c. \<lparr>html_url = html_url c, sha = sha c,
                                 message = commit_message (commit c)\<rparr>) data), s2))"

section \<open>The File-Diff Fetcher\<close>

definition commit_url :: "string \<Rightarrow> string \<Rightarrow> string \<Rightarrow> string" where
  "commit_url owner repo' sha' =
     ''https://api.github.com/repos/'' @ owner @ ''/'' @ repo' @ ''/commits/'' @ sha'"

text \<open>
  \<^verbatim>\<open>getModifiedFiles\<close>: everything between \<^verbatim>\<open>try\<close> and \<^verbatim>\<open>catch\<close> either yields the
  file names or throws, and the handler logs and yields the empty list.
  \<^verbatim>\<open>res.data.files?.map(...) || []\<close> is the mapped array when \<^verbatim>\<open>files\<close> is there (an array
  is truthy, also when empty) and \<^verbatim>\<open>[]\<close> when it is not.
\<close>

definition getModifiedFiles ::
  "world \<Rightarrow> env \<Rightarrow> string \<Rightarrow> string \<Rightarrow> string \<Rightarrow> state \<Rightarrow> string list \<times> state" where
  "getModifiedFiles w e owner repo' sha' s =
     (let url = commit_url owner repo' sha' in
      case axios_get (commit_endpoint w) url (headers e) s of
        (Inr data, s1) \<Rightarrow>
          (case files data of
             Some fs \<Rightarrow> (map filename fs, s1)
           | None \<Rightarrow> ([], s1))
      | (Inl err, s1) \<Rightarrow>
          ([], console_error (cross_mark @ '' Error obteniendo archivos del commit '' @ sha'
                 @ '': '' @ error_toString err) s1))"

section \<open>The Report Generator\<close>

text \<open>
  One turn of the loop over \<^verbatim>\<open>data.commits\<close>, with \<^verbatim>\<open>content\<close> threaded through:
  it awaits \<^verbatim>\<open>getModifiedFiles(GITHUB_USER!, data.repo, commit.sha)\<close>.
\<close>

definition commit_block ::
  "world \<Rightarrow> env \<Rightarrow> string \<Rightarrow> commit_summary \<Rightarrow> string \<Rightarrow> state \<Rightarrow> string \<times> state" where
  "commit_block w e repo' c content s =
     (let content1 = content @ ''\<newline>#### Commit: '' @ backtick @ message c @ backtick @ ''\<newline>'';
          content2 = content1 @ ''- [Ver commit]('' @ html_url c @ '')\<newline>'';
          (fs, s1) = getModifiedFiles w e (interpolate (GITHUB_USER e)) repo' (sha c) s;
          content3 =
            (if length fs > 0 then
               foldl (\<lambda>acc file. acc @ ''  - '' @ file @ ''\<newline>'')
                 (content2 @ ''- Archivos modificados:\<newline>'') fs
             else content2 @ ''- No se encontraron archivos modificados.\<newline>'');
          content4 = content3 @ ''\<newline>---\<newline>''
      in (content4, s1))"

fun commits_loop ::
  "world \<Rightarrow> env \<Rightarrow> string \<Rightarrow> commit_summary list \<Rightarrow> string \<Rightarrow> state \<Rightarrow> string \<times> state" where
  "commits_loop w e repo' [] content s = (content, s)"
| "commits_loop w e repo' (c # cs) content s =
     (let (content1, s1) = commit_block w e repo' c content s
      in commits_loop w e repo' cs content1 s1)"

text \<open>One turn of the loop over \<^verbatim>\<open>allData\<close>.\<close>

definition repo_section :: "world \<Rightarrow> env \<Rightarrow> repoData \<Rightarrow> string \<Rightarrow> state \<Rightarrow> string \<times> state" where
  "repo_section w e data content s =
     (let content1 = content @ ''\<newline>## '' @ construction_sign @ '' Repositorio: '' @ label data
                       @ '' ('' @ repo data @ '')\<newline>'';
          content2 = content1 @ ''\<newline>### '' @ hammer_and_wrench @ '' Issues Resueltos - ''
                       @ label data @ ''\<newline>'';
          content3 =
            (if length (issues data) = 0 then content2 @ ''\<newline>- Ninguno\<newline>''
             else foldl (\<lambda>acc i. acc @ ''\<newline>- ['' @ title i @ '']('' @ html_url i @ '')\<newline>'')
                    content2 (issues data));
          content4 = content3 @ ''\<newline>### '' @ arrows @ '' Pull Requests Mergiados - ''
                       @ label data @ ''\<newline>'';
          content5 =
            (if length (prs data) = 0 then content4 @ ''\<newline>- Ninguno\<newline>''
             else foldl (\<lambda>acc pr. acc @ ''\<newline>- ['' @ title pr @ '']('' @ html_url pr @ '')\<newline>'')
                    content4 (prs data));
          content6 = content5 @ ''\<newline>### '' @ floppy_disk @ '' Commits del d'' @ i_acute @ ''a - ''
                       @ label data @ ''\<newline>''
      in if length (commits data) = 0 then (content6 @ ''\<newline>- Ninguno\<newline>'', s)
         else commits_loop w e (repo data) (commits data) content6 s)"

fun report_loop ::
  "world \<Rightarrow> env \<Rightarrow> repoData list \<Rightarrow> string \<Rightarrow> state \<Rightarrow> string \<times> state" where
  "report_loop w e [] content s = (content, s)"
| "report_loop w e (data # rest) content s =
     (let (content1, s1) = repo_section w e data content s
      in report_loop w e rest content1 s1)"

text \<open>
  \<^verbatim>\<open>generateReport\<close> returns the text it built beside the result of the write, so that
  theorems can speak of the text also when the write fails.
\<close>

definition generateReport ::
  "world \<Rightarrow> env \<Rightarrow> repoData list \<Rightarrow> state \<Rightarrow> (error + unit) \<times> string \<times> state" where
  "generateReport w e allData s =
     (let content0 = ''# Reporte Semanal de Actividades\<newline>\<newline>'';
          (now, s1) = new_Date w s;
          content1 = content0 @ ''Fecha: '' @ toLocaleDateString w now @ ''\<newline>'';
          (content, s2) = report_loop w e allData content1 s1;
          filePath = report_path w
      in case fs_writeFile w filePath content s2 of
           (Inl err, s3) \<Rightarrow> (Inl err, content, s3)
         | (Inr u, s3) \<Rightarrow>
             (Inr (), content,
              console_log (check_mark @ '' Reporte generado en: '' @ filePath) s3))"

section \<open>The Orchestrator\<close>

text \<open>The body of the \<^verbatim>\<open>try\<close> block: the three Collectors in sequence, the first throw ends it.\<close>

definition fetch_repo ::
  "world \<Rightarrow> env \<Rightarrow> repoConfig \<Rightarrow> state \<Rightarrow> (error + repoData) \<times> state" where
  "fetch_repo w e repoConfig s =
     (let repo' = name repoConfig; label' = label repoConfig;
          owner = interpolate (GITHUB_USER e)
      in case getClosedIssues w e owner repo' s of
           (Inl err, s1) \<Rightarrow> (Inl err, s1)
         | (Inr issues', s1) \<Rightarrow>
             (case getMergedPRs w e owner repo' s1 of
                (Inl err, s2) \<Rightarrow> (Inl err, s2)
              | (Inr prs', s2) \<Rightarrow>
                  (case getTodaysCommits w e owner repo' s2 of
                     (Inl err, s3) \<Rightarrow> (Inl err, s3)
                   | (Inr commits', s3) \<Rightarrow>
                       (Inr \<lparr>label = label', repo = repo', issues = issues', prs = prs',
                             commits = commits'\<rparr>, s3))))"

fun fetch_loop ::
  "world \<Rightarrow> env \<Rightarrow> repoConfig list \<Rightarrow> repoData list \<Rightarrow> state \<Rightarrow> repoData list \<times> state" where
  "fetch_loop w e [] allData s = (allData, s)"
| "fetch_loop w e (repoConfig # rest) allData s =
     (let s0 = console_log (arrows @ '' Obteniendo datos de '' @ name repoConfig @ ''...'') s
      in case fetch_repo w e repoConfig s0 of
           (Inr data, s1) \<Rightarrow> fetch_loop w e rest (allData @ [data]) s1
         | (Inl err, s1) \<Rightarrow>
             fetch_loop w e rest allData
               (console_error (cross_mark @ '' Error obteniendo datos de '' @ name repoConfig
                  @ '': '' @ error_message err) s1))"

text \<open>The asynchronous function at the end of the module.\<close>

definition main :: "world \<Rightarrow> env \<Rightarrow> config \<Rightarrow> state \<Rightarrow> (error + unit) \<times> string \<times> state" where
  "main w e cfg s =
     (let (allData, s1) = fetch_loop w e (repos cfg) [] s
      in generateReport w e allData s1)"

text \<open>
  How the process ends: \<^verbatim>\<open>process.exit(1)\<close>, the event loop running empty (status 0), or
  the promise of \<^verbatim>\<open>main\<close> rejected with nobody handling it. The runtime decides what
  an unhandled rejection does to the process (Node.js since version 15 prints the error and
  exits with status 1); it is not a normal completion.
\<close>

datatype outcome = Exited nat | Unhandled_rejection error

text \<open>
  The module from its first statement: the check of the two environment values, then
  \<^verbatim>\<open>main\<close>. The second component is the report text, when one was built.
\<close>

definition run :: "world \<Rightarrow> env \<Rightarrow> config \<Rightarrow> outcome \<times> string option \<times> state" where
  "run w e cfg =
     (if \<not> truthy (GITHUB_TOKEN e) \<or> \<not> truthy (GITHUB_USER e) then
        (Exited 1, None,
         console_error (cross_mark @ '' Faltan variables de entorno. Verifica el archivo .env'')
           init_state)
      else
        (case main w e cfg init_state of
           (Inl err, content, s) \<Rightarrow> (Unhandled_rejection err, Some content, s)
         | (Inr u, content, s) \<Rightarrow> (Exited 0, Some content, s)))"

section \<open>A concrete run\<close>

text \<open>
  The account \<^verbatim>\<open>ana\<close> on 7 November 2024: the repository \<^verbatim>\<open>alpha\<close> answers with one
  closed issue, three closed pull requests (one merged by \<^verbatim>\<open>ana\<close>, one closed without a
  merge, one merged by \<^verbatim>\<open>bob\<close>) and one commit touching two files; every other request
  fails.
\<close>

definition demo_env :: env where
  "demo_env = \<lparr>GITHUB_TOKEN = Some ''t0k'', GITHUB_USER = Some ''ana''\<rparr>"

definition demo_time :: utc_time where
  "demo_time = \<lparr>year = 2024, month = 11, day = 7, hours = 9, minutes = 30, seconds = 15,
                 milliseconds = 42\<rparr>"

definition network_error :: error where
  "network_error = AxiosError ''Network Error''"

definition demo_world :: world where
  "demo_world =
     \<lparr>time_at = (\<lambda>t. demo_time),
      toLocaleDateString = (\<lambda>t. ''7/11/2024''),
      issues_endpoint = (\<lambda>t url.
        if url = ''https://api.github.com/repos/ana/alpha/issues?state=closed&creator=ana&since=2024-11-07T00:00:00Z''
        then Inr [\<lparr>html_url = ''https://github.com/ana/alpha/issues/1'', title = ''Fix login''\<rparr>]
        else Inl network_error),
      pulls_endpoint = (\<lambda>t url.
        if url = ''https://api.github.com/repos/ana/alpha/pulls?state=closed&since=2024-11-07T00:00:00Z''
        then Inr [\<lparr>html_url = ''https://github.com/ana/alpha/pull/2'', title = ''Add cache'',
                    merged_at = Some ''2024-11-07T08:00:00Z'', user = Some \<lparr>login = ''ana''\<rparr>\<rparr>,
                  \<lparr>html_url = ''https://github.com/ana/alpha/pull/3'', title = ''Drop cache'',
                    merged_at = None, user = Some \<lparr>login = ''ana''\<rparr>\<rparr>,
                  \<lparr>html_url = ''https://github.com/ana/alpha/pull/4'', title = ''Bump deps'',
                    merged_at = Some ''2024-11-07T08:30:00Z'', user = Some \<lparr>login = ''bob''\<rparr>\<rparr>]
        else Inl network_error),
      commits_endpoint = (\<lambda>t url.
        if url = ''https://api.github.com/repos/ana/alpha/commits?author=ana&since=2024-11-07T00:00:00Z''
        then Inr [\<lparr>html_url = ''https://github.com/ana/alpha/commit/abc123'', sha = ''abc123'',
                    commit = \<lparr>commit_message = ''Add cache''\<rparr>\<rparr>]
        else Inl network_error),
      commit_endpoint = (\<lambda>t url.
        if url = ''https://api.github.com/repos/ana/alpha/commits/abc123''
        then Inr \<lparr>files = Some [\<lparr>filename = ''a.ts''\<rparr>, \<lparr>filename = ''b.md''\<rparr>]\<rparr>
        else if url = ''https://api.github.com/repos/ana/alpha/commits/def456''
        then Inr \<lparr>files = None\<rparr>
        else Inl network_error),
      writeFile_failure = (\<lambda>t path content. None),
      report_path = ''/app/report.md''\<rparr>"


text \<open>
  The report of that run up to the file list of the one commit: the title, the date line,
  the heading of \<^verbatim>\<open>alpha\<close>, its three sections and the head of the commit block.
\<close>

definition alpha_head :: string where
  "alpha_head =
     ''# Reporte Semanal de Actividades\<newline>\<newline>Fecha: 7/11/2024\<newline>''
     @ ''\<newline>## '' @ construction_sign @ '' Repositorio: Alpha (alpha)\<newline>''
     @ ''\<newline>### '' @ hammer_and_wrench @ '' Issues Resueltos - Alpha\<newline>''
     @ ''\<newline>- [Fix login](https://github.com/ana/alpha/issues/1)\<newline>''
     @ ''\<newline>### '' @ arrows @ '' Pull Requests Mergiados - Alpha\<newline>''
     @ ''\<newline>- [Add cache](https://github.com/ana/alpha/pull/2)\<newline>''
     @ ''\<newline>### '' @ floppy_disk @ '' Commits del d'' @ i_acute @ ''a - Alpha\<newline>''
     @ ''\<newline>#### Commit: '' @ backtick @ ''Add cache'' @ backtick @ ''\<newline>''
     @ ''- [Ver commit](https://github.com/ana/alpha/commit/abc123)\<newline>''"

text \<open>The same, with a merged pull request whose author is gone among the answers.\<close>

definition orphan_world :: world where
  "orphan_world =
     demo_world\<lparr>pulls_endpoint := (\<lambda>t url.
        Inr [\<lparr>html_url = ''https://github.com/ana/alpha/pull/2'', title = ''Add cache'',
               merged_at = Some ''2024-11-07T08:00:00Z'', user = Some \<lparr>login = ''ana''\<rparr>\<rparr>,
             \<lparr>html_url = ''https://github.com/ana/alpha/pull/5'', title = ''Old fix'',
               merged_at = Some ''2024-11-07T09:00:00Z'', user = None\<rparr>])\<rparr>"

text \<open>
  The same, with the clock passing midnight UTC after the first request: the first two
  interactions happen late on 7 November, the later ones early on 8 November.
\<close>

definition late_evening :: utc_time where
  "late_evening = \<lparr>year = 2024, month = 11, day = 7, hours = 23, minutes = 59, seconds = 59,
                    milliseconds = 900\<rparr>"

definition early_morning :: utc_time where
  "early_morning = \<lparr>year = 2024, month = 11, day = 8, hours = 0, minutes = 0, seconds = 0,
                     milliseconds = 100\<rparr>"

definition straddling_world :: world where
  "straddling_world = demo_world\<lparr>time_at := (\<lambda>t. if t < 2 then late_evening else early_morning)\<rparr>"


text \<open>The same, with every commit detail failing with an error that has no message.\<close>

definition silent_world :: world where
  "silent_world = demo_world\<lparr>commit_endpoint := (\<lambda>t url. Inl (AxiosError []))\<rparr>"



section \<open>The start of the activity window\<close>

text \<open>
  The specification's start of the window: the instant at 00:00:00.000 of the UTC date of a
  clock reading.
\<close>

definition midnight :: "utc_time \<Rightarrow> utc_time" where
  "midnight t = t\<lparr>hours := 0, minutes := 0, seconds := 0, milliseconds := 0\<rparr>"

section \<open>The fetches that succeeded\<close>


section \<open>Facts about the filter of the Merged-PRs Collector\<close>

lemma merged_by_user_cases:
  "merged_by_user e pr = Inl null_login \<or> (\<exists>b. merged_by_user e pr = Inr b)"
  by (auto simp: merged_by_user_def split: option.splits)

lemma filter_throwing_null_user:
  "pr \<in> set data \<Longrightarrow> truthy (merged_at pr) \<Longrightarrow> user pr = None \<Longrightarrow>
     filter_throwing (merged_by_user e) data = Inl null_login"
proof (induction data)
  case Nil
  then show ?case by simp
next
  case (Cons x xs)
  show ?case
  proof (cases "merged_by_user e x")
    case (Inl err)
    then have "err = null_login"
      using merged_by_user_cases [of e x] by auto
    with Inl show ?thesis by simp
  next
    case (Inr b)
    then have "x \<noteq> pr"
      using Cons.prems by (auto simp: merged_by_user_def)
    then have "filter_throwing (merged_by_user e) xs = Inl null_login"
      using Cons by auto
    with Inr show ?thesis by simp
  qed
qed

text \<open>
  Where every entry with a truthy merge timestamp has a user, nothing throws, and the
  Collector returns the entries that are merged and whose author is the account, in the
  order of the answer.
\<close>

lemma filter_throwing_guarded:
  "(\<forall>pr \<in> set data. truthy (merged_at pr) \<longrightarrow> user pr \<noteq> None) \<Longrightarrow>
     filter_throwing (merged_by_user e) data =
       Inr (filter (\<lambda>pr. truthy (merged_at pr)
                       \<and> (\<exists>u. user pr = Some u \<and> Some (login u) = GITHUB_USER e)) data)"
  by (induction data) (auto simp: merged_by_user_def)

lemma getMergedPRs_guarded:
  assumes "pulls_endpoint w (Suc (tick s)) (pulls_url owner repo' (today_of (time_at w (tick s))))
             = Inr data"
    and "\<forall>pr \<in> set data. truthy (merged_at pr) \<longrightarrow> user pr \<noteq> None"
  shows "fst (getMergedPRs w e owner repo' s) =
           Inr (filter (\<lambda>pr. truthy (merged_at pr)
                           \<and> (\<exists>u. user pr = Some u \<and> Some (login u) = GITHUB_USER e)) data)"
  using assms(1) filter_throwing_guarded [OF assms(2), of e]
  by (simp add: getMergedPRs_def new_Date_def axios_get_def)

lemma demo_today: "today_of demo_time = ''2024-11-07''"
  by code_simp

section \<open>Facts about the Report Generator\<close>

text \<open>Every loop of the generator only appends to \<^verbatim>\<open>content\<close>.\<close>

lemma foldl_append_concat:
  "foldl (\<lambda>acc x. acc @ f x) a xs = a @ concat (map f xs)"
  by (induction xs arbitrary: a) simp_all

lemma commit_block_append:
  "commit_block w e repo' c content s =
     (content @ fst (commit_block w e repo' c [] s), snd (commit_block w e repo' c [] s))"
  by (simp add: commit_block_def Let_def foldl_append_concat split: prod.splits
      del: append.simps(2))

lemma commits_loop_append:
  "commits_loop w e repo' cs content s =
     (content @ fst (commits_loop w e repo' cs [] s), snd (commits_loop w e repo' cs [] s))"
proof (induction cs arbitrary: content s)
  case Nil
  then show ?case by simp
next
  case (Cons c cs)
  obtain x s1 where b: "commit_block w e repo' c [] s = (x, s1)"
    by (cases "commit_block w e repo' c [] s")
  then have b': "commit_block w e repo' c content s = (content @ x, s1)"
    using commit_block_append [of w e repo' c content s] by simp
  have "commits_loop w e repo' (c # cs) content s = commits_loop w e repo' cs (content @ x) s1"
    using b' by simp
  also have "\<dots> = ((content @ x) @ fst (commits_loop w e repo' cs [] s1),
                    snd (commits_loop w e repo' cs [] s1))"
    by (rule Cons.IH)
  finally have l: "commits_loop w e repo' (c # cs) content s =
      (content @ x @ fst (commits_loop w e repo' cs [] s1), snd (commits_loop w e repo' cs [] s1))"
    by simp
  have "commits_loop w e repo' (c # cs) [] s = commits_loop w e repo' cs x s1"
    using b by simp
  also have "\<dots> = (x @ fst (commits_loop w e repo' cs [] s1),
                    snd (commits_loop w e repo' cs [] s1))"
    by (rule Cons.IH)
  finally show ?case
    using l by simp
qed



lemma commits_loop_fst:
  "fst (commits_loop w e repo' cs content s) = content @ fst (commits_loop w e repo' cs [] s)"
  using commits_loop_append [of w e repo' cs content s] by simp

section \<open>Facts about the Orchestrator\<close>






section \<open>Facts about the written file\<close>










section \<open>Facts about the sections and the console\<close>








section \<open>What the report text depends on\<close>






lemma repo_section_text:
  "fst (repo_section w e data content s) =
     content
     @ ''\<newline>## '' @ construction_sign @ '' Repositorio: '' @ label data
       @ '' ('' @ repo data @ '')\<newline>''
     @ ''\<newline>### '' @ hammer_and_wrench @ '' Issues Resueltos - '' @ label data @ ''\<newline>''
     @ (if issues data = [] then ''\<newline>- Ninguno\<newline>''
        else concat (map (\<lambda>i. ''\<newline>- ['' @ title i @ '']('' @ html_url i @ '')\<newline>'')
               (issues data)))
     @ ''\<newline>### '' @ arrows @ '' Pull Requests Mergiados - '' @ label data @ ''\<newline>''
     @ (if prs data = [] then ''\<newline>- Ninguno\<newline>''
        else concat (map (\<lambda>pr. ''\<newline>- ['' @ title pr @ '']('' @ html_url pr @ '')\<newline>'')
               (prs data)))
     @ ''\<newline>### '' @ floppy_disk @ '' Commits del d'' @ i_acute @ ''a - '' @ label data
       @ ''\<newline>''
     @ (if commits data = [] then ''\<newline>- Ninguno\<newline>''
        else fst (commits_loop w e (repo data) (commits data) [] s))"
  by (cases "issues data = []"; cases "prs data = []"; cases "commits data = []")
    (simp_all add: repo_section_def foldl_append_concat
      commits_loop_fst [of w e "repo data" "commits data" "_ @ _"] del: append.simps(2))




section \<open>The concrete run, end to end\<close>

text \<open>
  With \<^verbatim>\<open>alpha\<close> and \<^verbatim>\<open>beta\<close> configured: the report has the one section of
  \<^verbatim>\<open>alpha\<close> with its issue, its merged pull request and its commit with two files;
  \<^verbatim>\<open>beta\<close> is announced, fails and is logged; the process ends with status 0.
\<close>

lemma demo_report:
  "run demo_world demo_env
     \<lparr>repos = [\<lparr>label = ''Alpha'', name = ''alpha''\<rparr>, \<lparr>label = ''Beta'', name = ''beta''\<rparr>]\<rparr> =
   (Exited 0,
    Some (alpha_head @ ''- Archivos modificados:\<newline>  - a.ts\<newline>  - b.md\<newline>''
          @ ''\<newline>---\<newline>''),
    \<lparr>tick = 11,
     console =
       [Log (arrows @ '' Obteniendo datos de alpha...''),
        Log (arrows @ '' Obteniendo datos de beta...''),
        Error (cross_mark @ '' Error obteniendo datos de beta: Network Error''),
        Log (check_mark @ '' Reporte generado en: /app/report.md'')],
     requests =
       [(''https://api.github.com/repos/ana/alpha/issues?state=closed&creator=ana&since=2024-11-07T00:00:00Z'', headers demo_env),
        (''https://api.github.com/repos/ana/alpha/pulls?state=closed&since=2024-11-07T00:00:00Z'', headers demo_env),
        (''https://api.github.com/repos/ana/alpha/commits?author=ana&since=2024-11-07T00:00:00Z'', headers demo_env),
        (''https://api.github.com/repos/ana/beta/issues?state=closed&creator=ana&since=2024-11-07T00:00:00Z'', headers demo_env),
        (''https://api.github.com/repos/ana/alpha/commits/abc123'', headers demo_env)],
     written =
       [(''/app/report.md'',
         alpha_head @ ''- Archivos modificados:\<newline>  - a.ts\<newline>  - b.md\<newline>''
         @ ''\<newline>---\<newline>'')]\<rparr>)"
  by code_simp

section \<open>Two invocations of the Report Generator\<close>




section \<open>A repository whose fetch fails\<close>




section \<open>The filter of merged pull requests\<close>

text \<open>
  Claim C3 at a list of closed pull requests where the second entry is merged and has no
  user: the Collector throws and returns no list at all, where the claim has it return the
  first entry alone.
\<close>

theorem getMergedPRs_throws_on_null_user:
  "fst (getMergedPRs orphan_world demo_env ''ana'' ''alpha'' init_state) = Inl null_login"
  by (simp add: getMergedPRs_def new_Date_def axios_get_def orphan_world_def merged_by_user_def
      truthy_def init_state_def Let_def)

section \<open>The check of the credentials\<close>




section \<open>The File-Diff Fetcher never throws\<close>

text \<open>
  Claim C5. \<^verbatim>\<open>getModifiedFiles\<close> returns the file names of the commit detail, in order,
  when the detail has a file list; the empty list when it has none; and when the request
  fails it logs the error on the console and returns the empty list. The logged line ends
  with the string of the error: its name alone when the error has no message, and its
  name, a colon, a space and its message otherwise. The result has no error branch, and
  the loop over the commits goes on with the remaining commits after a failed request,
  having rendered the placeholder for this one.
\<close>

theorem getModifiedFiles_degrades_to_empty:
  "(commit_endpoint w (tick s) (commit_url owner repo' sha') = Inr d \<and> files d = Some fs \<longrightarrow>
      fst (getModifiedFiles w e owner repo' sha' s) = map filename fs
      \<and> console (snd (getModifiedFiles w e owner repo' sha' s)) = console s)
   \<and> (commit_endpoint w (tick s) (commit_url owner repo' sha') = Inr d \<and> files d = None \<longrightarrow>
      fst (getModifiedFiles w e owner repo' sha' s) = []
      \<and> console (snd (getModifiedFiles w e owner repo' sha' s)) = console s)
   \<and> (commit_endpoint w (tick s) (commit_url owner repo' sha') = Inl err \<longrightarrow>
      fst (getModifiedFiles w e owner repo' sha' s) = []
      \<and> console (snd (getModifiedFiles w e owner repo' sha' s)) =
          console s @ [Error (cross_mark @ '' Error obteniendo archivos del commit '' @ sha'
                 @ '': '' @ error_toString err)])
   \<and> (commit_endpoint w (tick s) (commit_url owner repo' sha') = Inl err
        \<and> error_message err = [] \<longrightarrow>
      console (snd (getModifiedFiles w e owner repo' sha' s)) =
          console s @ [Error (cross_mark @ '' Error obteniendo archivos del commit '' @ sha'
                 @ '': '' @ error_name err)])
   \<and> (commit_endpoint w (tick s) (commit_url owner repo' sha') = Inl err
        \<and> error_message err \<noteq> [] \<longrightarrow>
      console (snd (getModifiedFiles w e owner repo' sha' s)) =
          console s @ [Error (cross_mark @ '' Error obteniendo archivos del commit '' @ sha'
                 @ '': '' @ error_name err @ '': '' @ error_message err)])
   \<and> (commit_endpoint w (tick s) (commit_url (interpolate (GITHUB_USER e)) repo' (sha c)) = Inl err \<longrightarrow>
      commits_loop w e repo' (c # cs) content s =
        commits_loop w e repo' cs
          (content @ ''\<newline>#### Commit: '' @ backtick @ message c @ backtick @ ''\<newline>''
             @ ''- [Ver commit]('' @ html_url c @ '')\<newline>''
             @ ''- No se encontraron archivos modificados.\<newline>'' @ ''\<newline>---\<newline>'')
          (snd (getModifiedFiles w e (interpolate (GITHUB_USER e)) repo' (sha c) s)))"
proof -
  have "error_name err \<noteq> []"
    by (cases err) simp_all
  then show ?thesis
    by (simp add: commit_block_def getModifiedFiles_def axios_get_def console_error_def
        error_toString_def)
qed

theorem getModifiedFiles_degrades_to_empty_witness:
  "commit_endpoint demo_world 0 (commit_url ''ana'' ''alpha'' ''abc123'')
     = Inr \<lparr>files = Some [\<lparr>filename = ''a.ts''\<rparr>, \<lparr>filename = ''b.md''\<rparr>]\<rparr>
   \<and> fst (getModifiedFiles demo_world demo_env ''ana'' ''alpha'' ''abc123'' init_state) = [''a.ts'', ''b.md'']
   \<and> commit_endpoint demo_world 0 (commit_url ''ana'' ''alpha'' ''def456'') = Inr \<lparr>files = None\<rparr>
   \<and> fst (getModifiedFiles demo_world demo_env ''ana'' ''alpha'' ''def456'' init_state) = []
   \<and> commit_endpoint demo_world 0 (commit_url ''ana'' ''beta'' ''abc123'') = Inl network_error
   \<and> fst (getModifiedFiles demo_world demo_env ''ana'' ''beta'' ''abc123'' init_state) = []
   \<and> console (snd (getModifiedFiles demo_world demo_env ''ana'' ''beta'' ''abc123'' init_state)) =
        [Error (cross_mark @ '' Error obteniendo archivos del commit abc123: AxiosError: Network Error'')]
   \<and> commit_endpoint silent_world 0 (commit_url ''ana'' ''alpha'' ''abc123'') = Inl (AxiosError [])
   \<and> console (snd (getModifiedFiles silent_world demo_env ''ana'' ''alpha'' ''abc123'' init_state)) =
        [Error (cross_mark @ '' Error obteniendo archivos del commit abc123: AxiosError'')]"
proof -
  have a: "commit_endpoint demo_world (tick init_state) (commit_url ''ana'' ''alpha'' ''abc123'')
     = Inr \<lparr>files = Some [\<lparr>filename = ''a.ts''\<rparr>, \<lparr>filename = ''b.md''\<rparr>]\<rparr>"
    by (simp add: demo_world_def commit_url_def init_state_def)
  have b: "commit_endpoint demo_world (tick init_state) (commit_url ''ana'' ''alpha'' ''def456'') = Inr \<lparr>files = None\<rparr>"
    by (simp add: demo_world_def commit_url_def init_state_def)
  have c: "commit_endpoint demo_world (tick init_state) (commit_url ''ana'' ''beta'' ''abc123'') = Inl network_error"
    by (simp add: demo_world_def commit_url_def init_state_def)
  have d: "commit_endpoint silent_world (tick init_state) (commit_url ''ana'' ''alpha'' ''abc123'')
     = Inl (AxiosError [])"
    by (simp add: silent_world_def)
  show ?thesis
    using a b c d
      getModifiedFiles_degrades_to_empty [of demo_world init_state "''ana''" "''alpha''" "''abc123''"
        "\<lparr>files = Some [\<lparr>filename = ''a.ts''\<rparr>, \<lparr>filename = ''b.md''\<rparr>]\<rparr>"
        "[\<lparr>filename = ''a.ts''\<rparr>, \<lparr>filename = ''b.md''\<rparr>]" demo_env]
      getModifiedFiles_degrades_to_empty [of demo_world init_state "''ana''" "''alpha''" "''def456''"
        "\<lparr>files = None\<rparr>" _ demo_env]
      getModifiedFiles_degrades_to_empty [of demo_world init_state "''ana''" "''beta''" "''abc123''"
        _ _ demo_env network_error]
      getModifiedFiles_degrades_to_empty [of silent_world init_state "''ana''" "''alpha''" "''abc123''"
        _ _ demo_env "AxiosError []"]
    by (simp add: init_state_def error_toString_def network_error_def)
qed

section \<open>One section for every repository that was fetched\<close>



section \<open>The sections of one repository\<close>

text \<open>
  Claim C7. The text that \<^verbatim>\<open>generateReport\<close> appends for one entry of \<^verbatim>\<open>allData\<close> is
  the repository heading, the Issues heading, the Issues block, the Merged-PRs heading, the
  Merged-PRs block, the Commits heading and the Commits block. The Issues block is exactly
  the fixed placeholder \<^verbatim>\<open>- Ninguno\<close> when the issue list is empty, with no list item,
  and otherwise exactly one linked item per issue, in order, with no placeholder; the same
  holds of the Merged-PRs block and the pull-request list.
\<close>

theorem empty_sections_render_placeholder:
  "fst (repo_section w e data content s) =
     content
     @ ''\<newline>## '' @ construction_sign @ '' Repositorio: '' @ label data
       @ '' ('' @ repo data @ '')\<newline>''
     @ ''\<newline>### '' @ hammer_and_wrench @ '' Issues Resueltos - '' @ label data @ ''\<newline>''
     @ (if issues data = [] then ''\<newline>- Ninguno\<newline>''
        else concat (map (\<lambda>i. ''\<newline>- ['' @ title i @ '']('' @ html_url i @ '')\<newline>'')
               (issues data)))
     @ ''\<newline>### '' @ arrows @ '' Pull Requests Mergiados - '' @ label data @ ''\<newline>''
     @ (if prs data = [] then ''\<newline>- Ninguno\<newline>''
        else concat (map (\<lambda>pr. ''\<newline>- ['' @ title pr @ '']('' @ html_url pr @ '')\<newline>'')
               (prs data)))
     @ ''\<newline>### '' @ floppy_disk @ '' Commits del d'' @ i_acute @ ''a - '' @ label data
       @ ''\<newline>''
     @ (if commits data = [] then ''\<newline>- Ninguno\<newline>''
        else fst (commits_loop w e (repo data) (commits data) [] s))"
  by (rule repo_section_text)

section \<open>The \<^verbatim>\<open>since\<close> parameter\<close>

text \<open>The date part of the ISO string holds no \<^verbatim>\<open>T\<close>, so the split returns all of it.\<close>

lemma digit_char_decimal: "digit_char d \<in> set ''0123456789''"
  unfolding digit_char_def by (rule nth_mem) simp

lemma pad_decimal: "set (pad k n) \<subseteq> set ''0123456789''"
proof (induction k arbitrary: n)
  case 0
  then show ?case by simp
next
  case (Suc k)
  have "digit_char n \<in> set ''0123456789''" by (rule digit_char_decimal)
  with Suc [of "n div 10"] show ?case by simp
qed

lemma pad_no_T: "CHR ''T'' \<notin> set (pad k n)"
  using pad_decimal [of k n] by auto

lemma iso_date_no_T: "c \<in> set (iso_date t) \<Longrightarrow> c \<noteq> CHR ''T''"
  using pad_no_T by (auto simp: iso_date_def split: if_splits)

lemma today_of_iso_date: "today_of now = iso_date now"
  by (simp add: today_of_def split_head_def toISOString_def takeWhile_append2 iso_date_no_T)

lemma iso_date_late_evening: "iso_date late_evening = ''2024-11-07''"
  by code_simp

lemma iso_date_early_morning: "iso_date early_morning = ''2024-11-08''"
  by code_simp

text \<open>
  Claim C8. Each of the three Collectors, called in a state \<open>s\<close>, reads the clock once
  (its own reading, \<^term>\<open>time_at w (tick s)\<close>), sends exactly one request, and the
  \<^verbatim>\<open>since\<close> parameter of that request is the UTC date of the reading followed by
  \<^verbatim>\<open>T00:00:00Z\<close>: the ISO-8601 timestamp of midnight UTC of that day (the ISO string of
  \<^term>\<open>midnight\<close> of the reading, less its milliseconds). Each call moves the tick by
  two, so the next Collector reads the clock anew.
\<close>

theorem collectors_since_start_of_utc_day:
  "requests (snd (getClosedIssues w e owner repo' s)) =
     requests s @
       [(''https://api.github.com/repos/'' @ owner @ ''/'' @ repo'
          @ ''/issues?state=closed&creator='' @ interpolate (GITHUB_USER e)
          @ ''&since='' @ iso_date (time_at w (tick s)) @ ''T00:00:00Z'', headers e)]
   \<and> requests (snd (getMergedPRs w e owner repo' s)) =
     requests s @
       [(''https://api.github.com/repos/'' @ owner @ ''/'' @ repo'
          @ ''/pulls?state=closed&since='' @ iso_date (time_at w (tick s)) @ ''T00:00:00Z'',
         headers e)]
   \<and> requests (snd (getTodaysCommits w e owner repo' s)) =
     requests s @
       [(''https://api.github.com/repos/'' @ owner @ ''/'' @ repo'
          @ ''/commits?author='' @ interpolate (GITHUB_USER e)
          @ ''&since='' @ iso_date (time_at w (tick s)) @ ''T00:00:00Z'', headers e)]
   \<and> tick (snd (getClosedIssues w e owner repo' s)) = tick s + 2
   \<and> tick (snd (getMergedPRs w e owner repo' s)) = tick s + 2
   \<and> tick (snd (getTodaysCommits w e owner repo' s)) = tick s + 2
   \<and> toISOString (midnight (time_at w (tick s))) =
       iso_date (time_at w (tick s)) @ ''T00:00:00.000Z''"
proof -
  have i: "requests (snd (getClosedIssues w e owner repo' s)) =
     requests s @
       [(''https://api.github.com/repos/'' @ owner @ ''/'' @ repo'
          @ ''/issues?state=closed&creator='' @ interpolate (GITHUB_USER e)
          @ ''&since='' @ iso_date (time_at w (tick s)) @ ''T00:00:00Z'', headers e)]
      \<and> tick (snd (getClosedIssues w e owner repo' s)) = tick s + 2"
    by (simp add: getClosedIssues_def new_Date_def axios_get_def issues_url_def today_of_iso_date Let_def)
  have p: "requests (snd (getMergedPRs w e owner repo' s)) =
     requests s @
       [(''https://api.github.com/repos/'' @ owner @ ''/'' @ repo'
          @ ''/pulls?state=closed&since='' @ iso_date (time_at w (tick s)) @ ''T00:00:00Z'',
         headers e)]
      \<and> tick (snd (getMergedPRs w e owner repo' s)) = tick s + 2"
    by (simp add: getMergedPRs_def new_Date_def axios_get_def pulls_url_def today_of_iso_date Let_def
        split: sum.splits)
  have c: "requests (snd (getTodaysCommits w e owner repo' s)) =
     requests s @
       [(''https://api.github.com/repos/'' @ owner @ ''/'' @ repo'
          @ ''/commits?author='' @ interpolate (GITHUB_USER e)
          @ ''&since='' @ iso_date (time_at w (tick s)) @ ''T00:00:00Z'', headers e)]
      \<and> tick (snd (getTodaysCommits w e owner repo' s)) = tick s + 2"
    by (simp add: getTodaysCommits_def new_Date_def axios_get_def commits_url_def
        today_of_iso_date Let_def split: sum.splits)
  have m: "toISOString (midnight (time_at w (tick s))) =
       iso_date (time_at w (tick s)) @ ''T00:00:00.000Z''"
    by (simp add: toISOString_def midnight_def iso_date_def iso_clock_def digit_char_def
        numeral_2_eq_2 numeral_3_eq_3)
  from i p c m show ?thesis by blast
qed

theorem collectors_since_start_of_utc_day_witness:
  "requests (snd (getClosedIssues straddling_world demo_env ''ana'' ''alpha'' init_state)) =
     [(''https://api.github.com/repos/ana/alpha/issues?state=closed&creator=ana&since=2024-11-07T00:00:00Z'',
       headers demo_env)]
   \<and> requests (snd (getMergedPRs straddling_world demo_env ''ana'' ''alpha''
        (snd (getClosedIssues straddling_world demo_env ''ana'' ''alpha'' init_state)))) =
     [(''https://api.github.com/repos/ana/alpha/issues?state=closed&creator=ana&since=2024-11-07T00:00:00Z'',
       headers demo_env),
      (''https://api.github.com/repos/ana/alpha/pulls?state=closed&since=2024-11-08T00:00:00Z'',
       headers demo_env)]"
proof -
  let ?s1 = "snd (getClosedIssues straddling_world demo_env ''ana'' ''alpha'' init_state)"
  note a = collectors_since_start_of_utc_day
             [of straddling_world demo_env "''ana''" "''alpha''" init_state]
  note b = collectors_since_start_of_utc_day
             [of straddling_world demo_env "''ana''" "''alpha''" ?s1]
  have k: "tick ?s1 = 2"
    using a by (simp add: init_state_def)
  have tw: "time_at straddling_world t = (if t < 2 then late_evening else early_morning)" for t
    by (simp add: straddling_world_def)
  have t0: "iso_date (time_at straddling_world (tick init_state)) = ''2024-11-07''"
    by (simp add: tw init_state_def iso_date_late_evening)
  have t1: "iso_date (time_at straddling_world (tick ?s1)) = ''2024-11-08''"
    unfolding k by (simp add: tw iso_date_early_morning)
  have r0: "requests ?s1 =
     [(''https://api.github.com/repos/ana/alpha/issues?state=closed&creator=ana&since=2024-11-07T00:00:00Z'',
       headers demo_env)]"
    using a unfolding t0 by (simp add: init_state_def demo_env_def interpolate_def)
  have r1: "requests (snd (getMergedPRs straddling_world demo_env ''ana'' ''alpha'' ?s1)) =
     requests ?s1 @
     [(''https://api.github.com/repos/ana/alpha/pulls?state=closed&since=2024-11-08T00:00:00Z'',
       headers demo_env)]"
    using b unfolding t1 by (simp add: demo_env_def interpolate_def)
  show ?thesis
    using r0 r1 by simp
qed

section \<open>A pull request without a user\<close>

text \<open>
  Claim C9. When the list of closed pull requests holds an entry that is merged and whose
  \<^verbatim>\<open>user\<close> is \<^verbatim>\<open>null\<close>, the filter throws the \<^verbatim>\<open>TypeError\<close> of reading
  \<^verbatim>\<open>login\<close> instead of leaving the entry out, and the Orchestrator, having fetched the
  issues of that repository, catches it: the loop goes on with the remaining repositories,
  the accumulated list is what it was, and the console holds the error with the
  repository's name.
\<close>

theorem null_user_discards_repository:
  assumes "issues_endpoint w (Suc (tick s))
             (issues_url e (interpolate (GITHUB_USER e)) (name repoConfig)
                (today_of (time_at w (tick s)))) = Inr found"
    and "pulls_endpoint w (Suc (Suc (Suc (tick s))))
             (pulls_url (interpolate (GITHUB_USER e)) (name repoConfig)
                (today_of (time_at w (Suc (Suc (tick s)))))) = Inr data"
    and "pr \<in> set data" and "merged_at pr = Some stamp" and "stamp \<noteq> []" and "user pr = None"
  shows "filter_throwing (merged_by_user e) data = Inl null_login
     \<and> (\<exists>s'. fetch_loop w e (repoConfig # rest) allData s = fetch_loop w e rest allData s'
            \<and> console s' = console s @
                 [Log (arrows @ '' Obteniendo datos de '' @ name repoConfig @ ''...''),
                  Error (cross_mark @ '' Error obteniendo datos de '' @ name repoConfig @ '': ''
                         @ error_message null_login)])"
proof -
  let ?s0 = "console_log (arrows @ '' Obteniendo datos de '' @ name repoConfig @ ''...'') s"
  have t: "truthy (merged_at pr)"
    using assms(4,5) by (simp add: truthy_def)
  have f: "filter_throwing (merged_by_user e) data = Inl null_login"
    using filter_throwing_null_user [OF assms(3) t assms(6)] .
  have r: "fst (fetch_repo w e repoConfig ?s0) = Inl null_login
           \<and> console (snd (fetch_repo w e repoConfig ?s0)) = console ?s0"
    using assms(1,2) f
    by (simp add: fetch_repo_def getClosedIssues_def getMergedPRs_def new_Date_def axios_get_def
        console_log_def Let_def)
  obtain s1 where s1: "fetch_repo w e repoConfig ?s0 = (Inl null_login, s1)"
    and c1: "console s1 = console ?s0"
    using r by (cases "fetch_repo w e repoConfig ?s0") auto
  let ?s' = "console_error (cross_mark @ '' Error obteniendo datos de '' @ name repoConfig
                @ '': '' @ error_message null_login) s1"
  have "fetch_loop w e (repoConfig # rest) allData s = fetch_loop w e rest allData ?s'"
    using s1 by simp
  moreover have "console ?s' = console s @
                 [Log (arrows @ '' Obteniendo datos de '' @ name repoConfig @ ''...''),
                  Error (cross_mark @ '' Error obteniendo datos de '' @ name repoConfig @ '': ''
                         @ error_message null_login)]"
    using c1 by (simp add: console_error_def console_log_def)
  ultimately show ?thesis
    using f by blast
qed

theorem null_user_discards_repository_witness:
  "fst (fetch_loop orphan_world demo_env [\<lparr>label = ''Alpha'', name = ''alpha''\<rparr>] [] init_state) = []
   \<and> filter_throwing (merged_by_user demo_env)
        [\<lparr>html_url = ''https://github.com/ana/alpha/pull/2'', title = ''Add cache'',
               merged_at = Some ''2024-11-07T08:00:00Z'', user = Some \<lparr>login = ''ana''\<rparr>\<rparr>,
             \<lparr>html_url = ''https://github.com/ana/alpha/pull/5'', title = ''Old fix'',
               merged_at = Some ''2024-11-07T09:00:00Z'', user = None\<rparr>] = Inl null_login"
proof -
  let ?rc = "\<lparr>label = ''Alpha'', name = ''alpha''\<rparr>"
  let ?bad = "\<lparr>html_url = ''https://github.com/ana/alpha/pull/5'', title = ''Old fix'',
               merged_at = Some ''2024-11-07T09:00:00Z'', user = None\<rparr>"
  let ?data = "[\<lparr>html_url = ''https://github.com/ana/alpha/pull/2'', title = ''Add cache'',
               merged_at = Some ''2024-11-07T08:00:00Z'', user = Some \<lparr>login = ''ana''\<rparr>\<rparr>, ?bad]"
  have a: "issues_endpoint orphan_world (Suc (tick init_state))
             (issues_url demo_env (interpolate (GITHUB_USER demo_env)) (name ?rc)
                (today_of (time_at orphan_world (tick init_state))))
           = Inr [\<lparr>html_url = ''https://github.com/ana/alpha/issues/1'', title = ''Fix login''\<rparr>]"
    by (simp add: orphan_world_def demo_world_def demo_today issues_url_def demo_env_def interpolate_def)
  have b: "pulls_endpoint orphan_world (Suc (Suc (Suc (tick init_state))))
             (pulls_url (interpolate (GITHUB_USER demo_env)) (name ?rc)
                (today_of (time_at orphan_world (Suc (Suc (tick init_state)))))) = Inr ?data"
    by (simp add: orphan_world_def demo_world_def)
  have c: "?bad \<in> set ?data" by simp
  have d: "merged_at ?bad = Some ''2024-11-07T09:00:00Z''" by simp
  have u: "user ?bad = None" by simp
  from null_user_discards_repository [OF a b c d _ u, of "[]" "[]"]
  show ?thesis by (auto simp: init_state_def)
qed

section \<open>A run without data\<close>




end
